theory Spec2Isabelle
  imports Main
begin

section \<open>The video SIP gateway middleware of \<^verbatim>\<open>react/features/videosipgw/middleware.js\<close>\<close>

subsection \<open>JavaScript values\<close>

text \<open>
  The values the middleware tests with \<^verbatim>\<open>===\<close> and with \<^verbatim>\<open>&&\<close>: a status, an error
  message, a room's fields, an event's fields. Numbers are the integer-valued ones.
  Every comparison of the source has a string constant on one side, so \<^verbatim>\<open>===\<close> is
  equality of these values.
\<close>

datatype js = JUndefined | JNull | JBool bool | JNum int | JStr string | JObj nat

text \<open>ToBoolean: what \<^verbatim>\<open>if (v)\<close> and \<^verbatim>\<open>v && w\<close> test.\<close>

fun truthy :: "js \<Rightarrow> bool" where
  "truthy JUndefined = False"
| "truthy JNull = False"
| "truthy (JBool b) = b"
| "truthy (JNum n) = (n \<noteq> 0)"
| "truthy (JStr s) = (s \<noteq> [])"
| "truthy (JObj _) = True"

subsection \<open>Constants of the conferencing library\<close>

text \<open>
  Modelled from the spec: the members of \<^verbatim>\<open>JitsiSIPVideoGWStatus\<close> and of
  \<^verbatim>\<open>JitsiConferenceEvents\<close> are declared in lib-jitsi-meet, not in the source file.
  The spec names the availability statuses UNDEFINED, BUSY and AVAILABLE, the session
  states PENDING and FAILED and the error codes no-connection and session-exists; they
  are string constants, pairwise different.
\<close>

definition STATUS_UNDEFINED :: js where "STATUS_UNDEFINED = JStr ''UNDEFINED''"
definition STATUS_BUSY :: js where "STATUS_BUSY = JStr ''BUSY''"
definition STATUS_AVAILABLE :: js where "STATUS_AVAILABLE = JStr ''AVAILABLE''"
definition STATE_PENDING :: js where "STATE_PENDING = JStr ''PENDING''"
definition STATE_FAILED :: js where "STATE_FAILED = JStr ''FAILED''"
definition ERROR_NO_CONNECTION :: js where "ERROR_NO_CONNECTION = JStr ''no-connection''"
definition ERROR_SESSION_EXISTS :: js where "ERROR_SESSION_EXISTS = JStr ''session-exists''"

datatype conference_event =
  VIDEO_SIP_GW_AVAILABILITY_CHANGED | VIDEO_SIP_GW_SESSION_STATE_CHANGED

subsection \<open>Notifications and actions\<close>

text \<open>The object literals handed to the notification action creators.\<close>

record props =
  titleKey :: "string option"
  titleArguments :: "(string \<times> js) list option"
  descriptionKey :: "string option"
  descriptionArguments :: "(string \<times> js) list option"

datatype severity = Info | Warning | Error

datatype component = Notification

record notification =
  severity :: severity
  props :: props
  timeout :: "nat option"

text \<open>Handles of the objects owned by the conferencing library.\<close>

datatype conference = Conference nat
datatype session = Session nat

text \<open>
  A room descriptor \<^verbatim>\<open>{ id, name }\<close>; a property the object does not have reads as
  \<^verbatim>\<open>undefined\<close>.
\<close>

record room =
  room_id :: js
  room_name :: js

text \<open>
  The redux actions, by their \<^verbatim>\<open>type\<close>, with the properties the middleware reads or
  writes. The type constants (\<^verbatim>\<open>CONFERENCE_WILL_JOIN\<close>, \<^verbatim>\<open>SIP_GW_INVITE_ROOMS\<close>,
  \<^verbatim>\<open>SIP_GW_AVAILABILITY_CHANGED\<close>, \<^verbatim>\<open>SHOW_NOTIFICATION\<close>) are imported by the source
  file and pairwise different, so the constructor tells the type. \<open>OtherAction\<close> stands
  for an action of any other type.
\<close>

datatype action =
    ConferenceWillJoin
  | InviteRooms conference "room list"
  | AvailabilityChanged js
  | ShowNotification notification
  | OtherAction string

text \<open>
  Modelled from the spec: the action creators \<^verbatim>\<open>showNotification\<close>,
  \<^verbatim>\<open>showErrorNotification\<close> and \<^verbatim>\<open>showWarningNotification\<close> are in
  \<^verbatim>\<open>react/features/notifications\<close>, not in the source file. The spec gives the action they
  make: show-notification(severity, titleKey, titleArgs?, descriptionKey?,
  descriptionArguments?, autoDismissMs?) with severity info, warning or error.
\<close>

definition showNotification :: "component \<Rightarrow> props \<Rightarrow> nat option \<Rightarrow> action" where
  "showNotification c p t = ShowNotification \<lparr>severity = Info, props = p, timeout = t\<rparr>"

definition showErrorNotification :: "props \<Rightarrow> action" where
  "showErrorNotification p = ShowNotification \<lparr>severity = Error, props = p, timeout = None\<rparr>"

definition showWarningNotification :: "props \<Rightarrow> action" where
  "showWarningNotification p =
     ShowNotification \<lparr>severity = Warning, props = p, timeout = None\<rparr>"

subsection \<open>The two action creators of the file\<close>

definition availabilityChanged :: "js \<Rightarrow> action" where
  "availabilityChanged status = AvailabilityChanged status"

record gw_event =
  newState :: js
  displayName :: js

text \<open>\<^verbatim>\<open>null\<close>, nothing to show, is \<open>None\<close>.\<close>

definition sessionStateChanged :: "gw_event \<Rightarrow> action option" where
  "sessionStateChanged event =
     (if newState event = STATE_PENDING then
        Some (showNotification Notification
          \<lparr>titleKey = Some ''videoSIPGW.pending'',
           titleArguments = Some [(''displayName'', displayName event)],
           descriptionKey = None,
           descriptionArguments = None\<rparr> (Some 2000))
      else if newState event = STATE_FAILED then
        Some (showErrorNotification
          \<lparr>titleKey = Some ''videoSIPGW.errorInviteFailedTitle'',
           titleArguments = Some [(''displayName'', displayName event)],
           descriptionKey = Some ''videoSIPGW.errorInviteFailed'',
           descriptionArguments = None\<rparr>)
      else None)"

subsection \<open>The store, the conference and the log, as the middleware sees them\<close>

text \<open>
  The part of the redux state the middleware reads:
  \<^verbatim>\<open>getState()['features/base/conference'].joining\<close> and
  \<^verbatim>\<open>getState()['features/videosipgw'].status\<close>.
\<close>

record redux_state =
  joining :: conference
  status :: js

text \<open>
  What \<^verbatim>\<open>createVideoSIPGWSession\<close> returns: an \<^verbatim>\<open>Error\<close> with its \<^verbatim>\<open>message\<close>, or a
  session.
\<close>

datatype gw_result = GwError js | GwSession session

datatype listener = AvailabilityListener | SessionStateListener

datatype log_entry =
    UnknownStatus js
  | UnknownCreateError js
  | NoDisplayNameOrSip room

text \<open>
  The calls the middleware makes on its collaborators, in the order it makes them. A
  session-creation call is recorded with what it returned.
\<close>

datatype effect =
    Next action
  | Dispatch action
  | ConferenceOn conference conference_event listener
  | CreateVideoSIPGWSession conference js js gw_result
  | SessionStart session
  | LoggerError log_entry

text \<open>
  The collaborators are parameters. \<open>'w\<close> is the state of everything outside the
  middleware (the store behind \<^verbatim>\<open>next\<close>, \<^verbatim>\<open>dispatch\<close> and \<^verbatim>\<open>getState\<close>, the conference
  and its sessions); each call may change it, and what a call returns depends on it.
  Every call returns: the model has no exception, as the source catches none.
\<close>

record 'w env =
  next_fn :: "action \<Rightarrow> 'w \<Rightarrow> js \<times> 'w"
  getState :: "'w \<Rightarrow> redux_state"
  dispatch :: "action \<Rightarrow> 'w \<Rightarrow> 'w"
  conference_on :: "conference \<Rightarrow> conference_event \<Rightarrow> listener \<Rightarrow> 'w \<Rightarrow> 'w"
  createVideoSIPGWSession :: "conference \<Rightarrow> js \<Rightarrow> js \<Rightarrow> 'w \<Rightarrow> gw_result \<times> 'w"
  session_start :: "session \<Rightarrow> 'w \<Rightarrow> 'w"

text \<open>What a run leaves behind: the value returned, the calls made, the outside state.\<close>

record 'w outcome =
  returned :: js
  trace :: "effect list"
  world :: 'w

subsection \<open>The listeners registered on the conference\<close>

text \<open>
  \<^verbatim>\<open>(...args) => dispatch(_availabilityChanged(...args))\<close>: the first argument is the
  status, \<^verbatim>\<open>undefined\<close> when the event carries none.
\<close>

definition availability_listener :: "'w env \<Rightarrow> js list \<Rightarrow> 'w \<Rightarrow> effect list \<times> 'w" where
  "availability_listener E args w =
     (let a = availabilityChanged (case args of [] \<Rightarrow> JUndefined | s # _ \<Rightarrow> s)
      in ([Dispatch a], dispatch E a w))"

definition session_state_listener :: "'w env \<Rightarrow> gw_event \<Rightarrow> 'w \<Rightarrow> effect list \<times> 'w" where
  "session_state_listener E event w =
     (case sessionStateChanged event of
        None \<Rightarrow> ([], w)
      | Some toDispatch \<Rightarrow> ([Dispatch toDispatch], dispatch E toDispatch w))"

subsection \<open>The middleware\<close>

text \<open>
  The loop over \<^verbatim>\<open>action.rooms\<close>. The first component is \<open>Some v\<close> when the loop left
  the middleware with \<^verbatim>\<open>return v\<close>, and \<open>None\<close> when it ran to its end. An \<^verbatim>\<open>Error\<close>
  is an object, so \<^verbatim>\<open>if (e)\<close> holds for it.
\<close>

fun invite_rooms :: "'w env \<Rightarrow> conference \<Rightarrow> room list \<Rightarrow> 'w \<Rightarrow> js option \<times> effect list \<times> 'w" where
  "invite_rooms E conf [] w = (None, [], w)"
| "invite_rooms E conf (room # rooms) w =
     (let sipAddress = room_id room; displayName = room_name room in
      if truthy sipAddress \<and> truthy displayName then
        (case createVideoSIPGWSession E conf sipAddress displayName w of
           (GwError message, w1) \<Rightarrow>
             (if message = ERROR_NO_CONNECTION then
                (let a = showErrorNotification
                     \<lparr>titleKey = Some ''videoSIPGW.errorInviteTitle'',
                      titleArguments = None,
                      descriptionKey = Some ''videoSIPGW.errorInvite'',
                      descriptionArguments = None\<rparr>
                 in (Some JUndefined,
                     [CreateVideoSIPGWSession conf sipAddress displayName (GwError message),
                      Dispatch a],
                     dispatch E a w1))
              else if message = ERROR_SESSION_EXISTS then
                (let a = showWarningNotification
                     \<lparr>titleKey = Some ''videoSIPGW.errorAlreadyInvited'',
                      titleArguments = Some [(''displayName'', displayName)],
                      descriptionKey = None,
                      descriptionArguments = None\<rparr>
                 in (Some JUndefined,
                     [CreateVideoSIPGWSession conf sipAddress displayName (GwError message),
                      Dispatch a],
                     dispatch E a w1))
              else
                (Some JUndefined,
                 [CreateVideoSIPGWSession conf sipAddress displayName (GwError message),
                  LoggerError (UnknownCreateError message)],
                 w1))
         | (GwSession newSession, w1) \<Rightarrow>
             (case invite_rooms E conf rooms (session_start E newSession w1) of
                (r, tr, w2) \<Rightarrow>
                  (r,
                   CreateVideoSIPGWSession conf sipAddress displayName (GwSession newSession)
                     # SessionStart newSession # tr,
                   w2)))
      else
        (case invite_rooms E conf rooms w of
           (r, tr, w1) \<Rightarrow> (r, LoggerError (NoDisplayNameOrSip room) # tr, w1)))"

definition middleware :: "'w env \<Rightarrow> action \<Rightarrow> 'w \<Rightarrow> 'w outcome" where
  "middleware E action w =
     (case next_fn E action w of (result, w1) \<Rightarrow>
        (case action of
           ConferenceWillJoin \<Rightarrow>
             (let conf = joining (getState E w1);
                  w2 = conference_on E conf VIDEO_SIP_GW_AVAILABILITY_CHANGED
                         AvailabilityListener w1;
                  w3 = conference_on E conf VIDEO_SIP_GW_SESSION_STATE_CHANGED
                         SessionStateListener w2
              in \<lparr>returned = result,
                  trace = [Next action,
                           ConferenceOn conf VIDEO_SIP_GW_AVAILABILITY_CHANGED AvailabilityListener,
                           ConferenceOn conf VIDEO_SIP_GW_SESSION_STATE_CHANGED SessionStateListener],
                  world = w3\<rparr>)
         | InviteRooms conf rooms \<Rightarrow>
             (let st = status (getState E w1) in
              if st = STATUS_UNDEFINED then
                (let a = showErrorNotification
                     \<lparr>titleKey = Some ''videoSIPGW.unavailableTitle'',
                      titleArguments = None,
                      descriptionKey = Some ''recording.unavailable'',
                      descriptionArguments =
                        Some [(''serviceName'', JStr ''$t(videoSIPGW.serviceName)'')]\<rparr>
                 in \<lparr>returned = JUndefined, trace = [Next action, Dispatch a],
                     world = dispatch E a w1\<rparr>)
              else if st = STATUS_BUSY then
                (let a = showWarningNotification
                     \<lparr>titleKey = Some ''videoSIPGW.busyTitle'',
                      titleArguments = None,
                      descriptionKey = Some ''videoSIPGW.busy'',
                      descriptionArguments = None\<rparr>
                 in \<lparr>returned = JUndefined, trace = [Next action, Dispatch a],
                     world = dispatch E a w1\<rparr>)
              else if st \<noteq> STATUS_AVAILABLE then
                \<lparr>returned = JUndefined,
                 trace = [Next action, LoggerError (UnknownStatus st)],
                 world = w1\<rparr>
              else
                (case invite_rooms E conf rooms w1 of
                   (Some v, tr, w2) \<Rightarrow> \<lparr>returned = v, trace = Next action # tr, world = w2\<rparr>
                 | (None, tr, w2) \<Rightarrow>
                     \<lparr>returned = result, trace = Next action # tr, world = w2\<rparr>))
         | _ \<Rightarrow> \<lparr>returned = result, trace = [Next action], world = w1\<rparr>))"

subsection \<open>Reading a trace\<close>

fun dispatched :: "effect list \<Rightarrow> action list" where
  "dispatched [] = []"
| "dispatched (Dispatch a # es) = a # dispatched es"
| "dispatched (_ # es) = dispatched es"

fun forwarded :: "effect list \<Rightarrow> action list" where
  "forwarded [] = []"
| "forwarded (Next a # es) = a # forwarded es"
| "forwarded (_ # es) = forwarded es"

text \<open>The arguments of the session-creation calls, in the order of the calls.\<close>

fun created :: "effect list \<Rightarrow> (js \<times> js) list" where
  "created [] = []"
| "created (CreateVideoSIPGWSession c a n r # es) = (a, n) # created es"
| "created (_ # es) = created es"

fun started :: "effect list \<Rightarrow> session list" where
  "started [] = []"
| "started (SessionStart s # es) = s # started es"
| "started (_ # es) = started es"

text \<open>The sessions the creation calls returned, and the messages of the errors.\<close>

fun opened :: "effect list \<Rightarrow> session list" where
  "opened [] = []"
| "opened (CreateVideoSIPGWSession c a n (GwSession s) # es) = s # opened es"
| "opened (_ # es) = opened es"

fun failures :: "effect list \<Rightarrow> js list" where
  "failures [] = []"
| "failures (CreateVideoSIPGWSession c a n (GwError m) # es) = m # failures es"
| "failures (_ # es) = failures es"

text \<open>The guard of the loop: the room has a sip address and a display name.\<close>

definition has_address_and_name :: "room \<Rightarrow> bool" where
  "has_address_and_name room = (truthy (room_id room) \<and> truthy (room_name room))"

definition call_args :: "room \<Rightarrow> js \<times> js" where
  "call_args room = (room_id room, room_name room)"

text \<open>
  One step of the environment's own calls for a room: the creation call and, on a
  session, its \<^verbatim>\<open>start()\<close>. Folded over rooms, it gives the sessions the conference hands
  out and the outside state the calls leave; the loop is compared with it.
\<close>

definition create_and_start ::
  "'w env \<Rightarrow> conference \<Rightarrow> room \<Rightarrow> session list \<times> 'w \<Rightarrow> session list \<times> 'w" where
  "create_and_start E conf room = (\<lambda>(ss, w).
     case createVideoSIPGWSession E conf (room_id room) (room_name room) w of
       (GwSession s, w1) \<Rightarrow> (ss @ [s], session_start E s w1)
     | (GwError m, w1) \<Rightarrow> (ss, w1))"

subsection \<open>An example store and conference\<close>

text \<open>
  A small environment on which the theorems below are instantiated. Its reducer stores the
  status carried by an availability action; its conference refuses an address that has a
  session already, has no connection to \<^verbatim>\<open>sip:down\<close>, and fails in a way of its own on
  \<^verbatim>\<open>sip:odd\<close>.
\<close>

record example_world =
  store :: redux_state
  invited :: "js list"

definition example_env :: "example_world env" where
  "example_env =
     \<lparr>next_fn = (\<lambda>a w. (JObj 7,
        (case a of
           AvailabilityChanged s \<Rightarrow> w\<lparr>store := (store w)\<lparr>status := s\<rparr>\<rparr>
         | _ \<Rightarrow> w))),
      getState = store,
      dispatch = (\<lambda>a w. w),
      conference_on = (\<lambda>c e l w. w),
      createVideoSIPGWSession = (\<lambda>c a n w.
        if a \<in> set (invited w) then (GwError ERROR_SESSION_EXISTS, w)
        else if a = JStr ''sip:down'' then (GwError ERROR_NO_CONNECTION, w)
        else if a = JStr ''sip:odd'' then (GwError (JStr ''odd''), w)
        else (GwSession (Session (length (invited w))), w\<lparr>invited := invited w @ [a]\<rparr>)),
      session_start = (\<lambda>s w. w)\<rparr>"

definition example_world :: "js \<Rightarrow> example_world" where
  "example_world st = \<lparr>store = \<lparr>joining = Conference 1, status = st\<rparr>, invited = []\<rparr>"

definition alice :: room where "alice = \<lparr>room_id = JStr ''sip:a'', room_name = JStr ''Alice''\<rparr>"
definition alicia :: room where "alicia = \<lparr>room_id = JStr ''sip:a'', room_name = JStr ''Alicia''\<rparr>"
definition bob :: room where "bob = \<lparr>room_id = JStr ''sip:b'', room_name = JStr ''Bob''\<rparr>"
definition nameless :: room where "nameless = \<lparr>room_id = JStr ''sip:c'', room_name = JUndefined\<rparr>"
definition dora :: room where "dora = \<lparr>room_id = JStr ''sip:down'', room_name = JStr ''Dora''\<rparr>"
definition otto :: room where "otto = \<lparr>room_id = JStr ''sip:odd'', room_name = JStr ''Otto''\<rparr>"

text \<open>
  A second environment, whose outside state keeps every call it receives: the actions
  that reached \<^verbatim>\<open>next\<close>, the actions dispatched, the listeners registered, the addresses
  with a session and the sessions started.
\<close>

record logged_world =
  redux :: redux_state
  forwarded_to_next :: "action list"
  dispatched_to_store :: "action list"
  registered :: "(conference \<times> conference_event \<times> listener) list"
  addresses :: "js list"
  started_sessions :: "session list"

definition logging_env :: "logged_world env" where
  "logging_env =
     \<lparr>next_fn = (\<lambda>a w. (JObj 7,
        w\<lparr>forwarded_to_next := forwarded_to_next w @ [a],
          redux := (case a of
                      AvailabilityChanged s \<Rightarrow> (redux w)\<lparr>status := s\<rparr>
                    | _ \<Rightarrow> redux w)\<rparr>)),
      getState = redux,
      dispatch = (\<lambda>a w. w\<lparr>dispatched_to_store := dispatched_to_store w @ [a]\<rparr>),
      conference_on = (\<lambda>c e l w. w\<lparr>registered := registered w @ [(c, e, l)]\<rparr>),
      createVideoSIPGWSession = (\<lambda>c a n w.
        if a \<in> set (addresses w) then (GwError ERROR_SESSION_EXISTS, w)
        else if a = JStr ''sip:down'' then (GwError ERROR_NO_CONNECTION, w)
        else (GwSession (Session (length (addresses w))),
              w\<lparr>addresses := addresses w @ [a]\<rparr>)),
      session_start = (\<lambda>s w. w\<lparr>started_sessions := started_sessions w @ [s]\<rparr>)\<rparr>"

definition logged_world :: "js \<Rightarrow> logged_world" where
  "logged_world st =
     \<lparr>redux = \<lparr>joining = Conference 1, status = st\<rparr>,
      forwarded_to_next = [], dispatched_to_store = [], registered = [],
      addresses = [], started_sessions = []\<rparr>"

section \<open>Properties\<close>

subsection \<open>The loop over the rooms\<close>

lemmas gw_constants =
  STATUS_UNDEFINED_def STATUS_BUSY_def STATUS_AVAILABLE_def STATE_PENDING_def
  STATE_FAILED_def ERROR_NO_CONNECTION_def ERROR_SESSION_EXISTS_def

lemmas example_defs =
  example_env_def example_world_def alice_def alicia_def bob_def nameless_def dora_def otto_def

lemmas run_defs =
  middleware_def Let_def example_defs gw_constants showNotification_def
  showErrorNotification_def showWarningNotification_def

lemmas logging_defs =
  logging_env_def logged_world_def alice_def alicia_def bob_def nameless_def dora_def otto_def

lemmas logged_run_defs =
  middleware_def Let_def logging_defs gw_constants showNotification_def
  showErrorNotification_def showWarningNotification_def



lemma invite_rooms_completed:
  "invite_rooms E c rooms w = (None, tr, w') \<Longrightarrow>
     dispatched tr = [] \<and> failures tr = [] \<and> started tr = opened tr \<and>
     created tr = map call_args (filter has_address_and_name rooms) \<and>
     length (opened tr) = length (filter has_address_and_name rooms)"
proof (induction rooms arbitrary: w tr w')
  case Nil
  then show ?case by simp
next
  case (Cons room rooms)
  then show ?case
    by (auto simp: Let_def has_address_and_name_def call_args_def
        split: if_splits prod.splits gw_result.splits)
qed

lemma invite_rooms_returned:
  "invite_rooms E c rooms w = (Some v, tr, w') \<Longrightarrow> v = JUndefined \<and> failures tr \<noteq> []"
proof (induction rooms arbitrary: w tr w')
  case Nil
  then show ?case by simp
next
  case (Cons room rooms)
  then show ?case
    by (auto simp: Let_def split: if_splits prod.splits gw_result.splits)
qed

lemma invite_rooms_forwarded:
  "invite_rooms E c rooms w = (r, tr, w') \<Longrightarrow> forwarded tr = []"
proof (induction rooms arbitrary: w r tr w')
  case Nil
  then show ?case by simp
next
  case (Cons room rooms)
  then show ?case
    by (auto simp: Let_def showErrorNotification_def showWarningNotification_def
        split: if_splits prod.splits gw_result.splits)
qed

lemma invite_rooms_append:
  "invite_rooms E c (rs1 @ rs2) w =
     (case invite_rooms E c rs1 w of
        (Some v, tr, w1) \<Rightarrow> (Some v, tr, w1)
      | (None, tr, w1) \<Rightarrow>
          (case invite_rooms E c rs2 w1 of (r, tr2, w2) \<Rightarrow> (r, tr @ tr2, w2)))"
proof (induction rs1 arbitrary: w)
  case Nil
  then show ?case by (simp split: prod.splits)
next
  case (Cons room rs1)
  then show ?case
    by (auto simp: Let_def split: prod.splits gw_result.splits option.splits)
qed

lemma middleware_available:
  assumes "status (getState E (snd (next_fn E (InviteRooms c rooms) w))) = STATUS_AVAILABLE"
    and "invite_rooms E c rooms (snd (next_fn E (InviteRooms c rooms) w)) = (r, tr, w')"
  shows "middleware E (InviteRooms c rooms) w =
           \<lparr>returned = (case r of Some v \<Rightarrow> v | None \<Rightarrow> fst (next_fn E (InviteRooms c rooms) w)),
            trace = Next (InviteRooms c rooms) # tr, world = w'\<rparr>"
  using assms
  by (auto simp: middleware_def Let_def gw_constants split: prod.splits option.splits)

lemma dispatched_append: "dispatched (xs @ ys) = dispatched xs @ dispatched ys"
  by (induction xs rule: dispatched.induct) simp_all

lemma created_append: "created (xs @ ys) = created xs @ created ys"
  by (induction xs rule: created.induct) simp_all

lemma invite_rooms_completed_calls:
  "invite_rooms E c rooms w = (None, tr, w') \<Longrightarrow>
     fold (create_and_start E c) (filter has_address_and_name rooms) (ss, w) =
       (ss @ opened tr, w')"
proof (induction rooms arbitrary: w tr w' ss)
  case Nil
  then show ?case by simp
next
  case (Cons room rooms)
  show ?case
  proof (cases "has_address_and_name room")
    case False
    then have g: "(truthy (room_id room) \<and> truthy (room_name room)) = False"
      by (simp add: has_address_and_name_def)
    obtain r1 tr1 w1 where rec: "invite_rooms E c rooms w = (r1, tr1, w1)"
      by (metis prod_cases3)
    with Cons.prems g have "r1 = None" "tr = LoggerError (NoDisplayNameOrSip room) # tr1"
      "w' = w1"
      by (simp_all add: Let_def del: de_Morgan_conj)
    with rec Cons.IH [of w tr1 w1 ss] False show ?thesis by simp
  next
    case True
    then have g: "truthy (room_id room) \<and> truthy (room_name room)"
      by (simp add: has_address_and_name_def)
    obtain res w1 where cr:
      "createVideoSIPGWSession E c (room_id room) (room_name room) w = (res, w1)"
      by (metis surj_pair)
    show ?thesis
    proof (cases res)
      case (GwError m)
      with Cons.prems g cr show ?thesis
        by (simp add: Let_def split: if_splits)
    next
      case (GwSession s)
      obtain r1 tr1 w2 where rec:
        "invite_rooms E c rooms (session_start E s w1) = (r1, tr1, w2)"
        by (metis prod_cases3)
      with Cons.prems g cr GwSession have "r1 = None"
        "tr = CreateVideoSIPGWSession c (room_id room) (room_name room) (GwSession s)
                # SessionStart s # tr1" "w' = w2"
        by (simp_all add: Let_def)
      with rec Cons.IH [of "session_start E s w1" tr1 w2 "ss @ [s]"] True cr GwSession
      show ?thesis by (simp add: create_and_start_def)
    qed
  qed
qed

lemma invite_rooms_failure_state:
  assumes "invite_rooms E c rooms w = (r, tr, w')"
    and "CreateVideoSIPGWSession c' a n (GwError m) \<in> set tr"
  shows "\<exists>pre rs1 rs2 w2 w3.
           rooms = rs1 @ \<lparr>room_id = a, room_name = n\<rparr> # rs2 \<and>
           invite_rooms E c rs1 w = (None, pre, w2) \<and>
           truthy a \<and> truthy n \<and>
           createVideoSIPGWSession E c a n w2 = (GwError m, w3)"
  using assms
proof (induction rooms arbitrary: w r tr w')
  case Nil
  then show ?case by simp
next
  case (Cons room rooms)
  show ?case
  proof (cases "truthy (room_id room) \<and> truthy (room_name room)")
    case False
    obtain r1 tr1 w1 where rec: "invite_rooms E c rooms w = (r1, tr1, w1)"
      by (metis prod_cases3)
    from Cons.prems(1) False rec
    have tr: "tr = LoggerError (NoDisplayNameOrSip room) # tr1"
      by (auto simp: Let_def)
    from Cons.prems(2) tr have "CreateVideoSIPGWSession c' a n (GwError m) \<in> set tr1"
      by simp
    from Cons.IH [OF rec this] obtain pre rs1 rs2 w2 w3 where
      IH: "rooms = rs1 @ \<lparr>room_id = a, room_name = n\<rparr> # rs2"
        "invite_rooms E c rs1 w = (None, pre, w2)" "truthy a" "truthy n"
        "createVideoSIPGWSession E c a n w2 = (GwError m, w3)"
      by blast
    from False IH(2) have "invite_rooms E c (room # rs1) w =
        (None, LoggerError (NoDisplayNameOrSip room) # pre, w2)"
      by (auto simp: Let_def)
    with IH show ?thesis
      by (metis append_Cons)
  next
    case True
    obtain res w1 where cr:
      "createVideoSIPGWSession E c (room_id room) (room_name room) w = (res, w1)"
      by (metis surj_pair)
    show ?thesis
    proof (cases res)
      case (GwError m')
      from Cons.prems(1) True cr GwError
      have "\<exists>x. tr = [CreateVideoSIPGWSession c (room_id room) (room_name room) (GwError m'), x]
                \<and> (\<forall>c a n r. x \<noteq> CreateVideoSIPGWSession c a n r)"
        by (auto simp: Let_def split: if_splits)
      with Cons.prems(2)
      have eq: "a = room_id room" "n = room_name room" "m = m'"
        by auto
      have "invite_rooms E c [] w = (None, [], w)" by simp
      moreover have "room # rooms = [] @ \<lparr>room_id = a, room_name = n\<rparr> # rooms"
        using eq by simp
      ultimately show ?thesis
        using True cr GwError eq by blast
    next
      case (GwSession s)
      obtain r1 tr1 w2 where rec:
        "invite_rooms E c rooms (session_start E s w1) = (r1, tr1, w2)"
        by (metis prod_cases3)
      from Cons.prems(1) True cr GwSession rec
      have tr: "tr = CreateVideoSIPGWSession c (room_id room) (room_name room) (GwSession s)
                   # SessionStart s # tr1"
        by (auto simp: Let_def)
      from Cons.prems(2) tr have "CreateVideoSIPGWSession c' a n (GwError m) \<in> set tr1"
        by simp
      from Cons.IH [OF rec this] obtain pre rs1 rs2 v2 v3 where
        IH: "rooms = rs1 @ \<lparr>room_id = a, room_name = n\<rparr> # rs2"
          "invite_rooms E c rs1 (session_start E s w1) = (None, pre, v2)" "truthy a" "truthy n"
          "createVideoSIPGWSession E c a n v2 = (GwError m, v3)"
        by blast
      from True cr GwSession IH(2) have "invite_rooms E c (room # rs1) w =
          (None, CreateVideoSIPGWSession c (room_id room) (room_name room) (GwSession s)
                   # SessionStart s # pre, v2)"
        by (auto simp: Let_def)
      with IH show ?thesis
        by (metis append_Cons)
    qed
  qed
qed

subsection \<open>The claims\<close>

text \<open>
  C1. An invite-rooms command with status AVAILABLE, in whose run a session creation
  fails: with the error code no-connection, exactly one action is dispatched, an error
  notification; with session-exists, exactly one action is dispatched, a warning
  notification whose title arguments carry the display name of the room that failed. In
  both cases the failing call and the dispatch end the run: the creation calls made are
  those for the rooms with an address and a name before the failing room, and the failing
  one; none is made for a later room. The failing call is the conference's own answer in
  the state the calls for the earlier rooms left, and the state the run leaves is the
  store's \<^verbatim>\<open>dispatch\<close> of the notification, applied to the state the failed call left.
\<close>

theorem invite_recognized_error_notifies_and_stops:
  assumes "w1 = snd (next_fn E (InviteRooms c rooms) w)"
    and "status (getState E w1) = STATUS_AVAILABLE"
    and "out = middleware E (InviteRooms c rooms) w"
    and "CreateVideoSIPGWSession c' a n (GwError m) \<in> set (trace out)"
    and "m = ERROR_NO_CONNECTION \<or> m = ERROR_SESSION_EXISTS"
  shows "\<exists>pre rs1 rs2 d w2 w3.
           d = (if m = ERROR_NO_CONNECTION then
                  ShowNotification
                    \<lparr>severity = Error,
                     props = \<lparr>titleKey = Some ''videoSIPGW.errorInviteTitle'',
                              titleArguments = None,
                              descriptionKey = Some ''videoSIPGW.errorInvite'',
                              descriptionArguments = None\<rparr>,
                     timeout = None\<rparr>
                else
                  ShowNotification
                    \<lparr>severity = Warning,
                     props = \<lparr>titleKey = Some ''videoSIPGW.errorAlreadyInvited'',
                              titleArguments = Some [(''displayName'', n)],
                              descriptionKey = None,
                              descriptionArguments = None\<rparr>,
                     timeout = None\<rparr>) \<and>
           dispatched (trace out) = [d] \<and>
           rooms = rs1 @ \<lparr>room_id = a, room_name = n\<rparr> # rs2 \<and>
           created (trace out) = map call_args (filter has_address_and_name rs1) @ [(a, n)] \<and>
           trace out = Next (InviteRooms c rooms) # pre @
                  [CreateVideoSIPGWSession c a n (GwError m), Dispatch d] \<and>
           returned out = JUndefined \<and>
           fold (create_and_start E c) (filter has_address_and_name rs1) ([], w1) =
             (opened pre, w2) \<and>
           createVideoSIPGWSession E c a n w2 = (GwError m, w3) \<and>
           world out = dispatch E d w3"
proof -
  obtain r ltr w' where run: "invite_rooms E c rooms w1 = (r, ltr, w')"
    by (metis prod_cases3)
  note out = middleware_available [OF assms(2) [unfolded assms(1)] run [unfolded assms(1)]]
  with assms(3) have tr: "trace out = Next (InviteRooms c rooms) # ltr" by simp
  with assms(4) have "CreateVideoSIPGWSession c' a n (GwError m) \<in> set ltr" by simp
  from invite_rooms_failure_state [OF run this] obtain pre rs1 rs2 w2 w3 where
    F: "rooms = rs1 @ \<lparr>room_id = a, room_name = n\<rparr> # rs2"
       "invite_rooms E c rs1 w1 = (None, pre, w2)" "truthy a" "truthy n"
       "createVideoSIPGWSession E c a n w2 = (GwError m, w3)"
    by blast
  let ?d = "if m = ERROR_NO_CONNECTION then
              showErrorNotification
                \<lparr>titleKey = Some ''videoSIPGW.errorInviteTitle'',
                 titleArguments = None,
                 descriptionKey = Some ''videoSIPGW.errorInvite'',
                 descriptionArguments = None\<rparr>
            else
              showWarningNotification
                \<lparr>titleKey = Some ''videoSIPGW.errorAlreadyInvited'',
                 titleArguments = Some [(''displayName'', n)],
                 descriptionKey = None,
                 descriptionArguments = None\<rparr>"
  from F(3-5) assms(5)
  have last: "invite_rooms E c (\<lparr>room_id = a, room_name = n\<rparr> # rs2) w2 =
      (Some JUndefined, [CreateVideoSIPGWSession c a n (GwError m), Dispatch ?d],
       dispatch E ?d w3)"
    by (auto simp: Let_def)
  from F(1,2) last have "invite_rooms E c rooms w1 =
      (Some JUndefined, pre @ [CreateVideoSIPGWSession c a n (GwError m), Dispatch ?d],
       dispatch E ?d w3)"
    by (simp add: invite_rooms_append)
  with run have res: "r = Some JUndefined"
    "ltr = pre @ [CreateVideoSIPGWSession c a n (GwError m), Dispatch ?d]"
    "w' = dispatch E ?d w3"
    by simp_all
  note pre = invite_rooms_completed [OF F(2)]
    invite_rooms_completed_calls [OF F(2), of "[]"]
  show ?thesis
    apply (rule exI [of _ pre])
    apply (rule exI [of _ rs1])
    apply (rule exI [of _ rs2])
    apply (rule exI [of _ ?d])
    apply (rule exI [of _ w2])
    apply (rule exI [of _ w3])
    using F(1,5) res pre tr out assms(3)
    by (simp add: dispatched_append created_append showErrorNotification_def
        showWarningNotification_def)
qed

theorem invite_recognized_error_notifies_and_stops_witness:
  "status (getState logging_env (snd (next_fn logging_env
      (InviteRooms (Conference 1) [alice, nameless, alicia, bob])
      (logged_world STATUS_AVAILABLE)))) = STATUS_AVAILABLE \<and>
   CreateVideoSIPGWSession (Conference 1) (JStr ''sip:a'') (JStr ''Alicia'')
       (GwError ERROR_SESSION_EXISTS)
     \<in> set (trace (middleware logging_env
          (InviteRooms (Conference 1) [alice, nameless, alicia, bob])
          (logged_world STATUS_AVAILABLE))) \<and>
   dispatched (trace (middleware logging_env
       (InviteRooms (Conference 1) [alice, nameless, alicia, bob])
       (logged_world STATUS_AVAILABLE))) =
     [ShowNotification
        \<lparr>severity = Warning,
         props = \<lparr>titleKey = Some ''videoSIPGW.errorAlreadyInvited'',
                  titleArguments = Some [(''displayName'', JStr ''Alicia'')],
                  descriptionKey = None,
                  descriptionArguments = None\<rparr>,
         timeout = None\<rparr>] \<and>
   dispatched_to_store (world (middleware logging_env
       (InviteRooms (Conference 1) [alice, nameless, alicia, bob])
       (logged_world STATUS_AVAILABLE))) =
     [ShowNotification
        \<lparr>severity = Warning,
         props = \<lparr>titleKey = Some ''videoSIPGW.errorAlreadyInvited'',
                  titleArguments = Some [(''displayName'', JStr ''Alicia'')],
                  descriptionKey = None,
                  descriptionArguments = None\<rparr>,
         timeout = None\<rparr>] \<and>
   addresses (world (middleware logging_env
       (InviteRooms (Conference 1) [alice, nameless, alicia, bob])
       (logged_world STATUS_AVAILABLE))) = [JStr ''sip:a''] \<and>
   started_sessions (world (middleware logging_env
       (InviteRooms (Conference 1) [alice, nameless, alicia, bob])
       (logged_world STATUS_AVAILABLE))) = [Session 0] \<and>
   CreateVideoSIPGWSession (Conference 1) (JStr ''sip:down'') (JStr ''Dora'')
       (GwError ERROR_NO_CONNECTION)
     \<in> set (trace (middleware logging_env
          (InviteRooms (Conference 1) [alice, dora, bob])
          (logged_world STATUS_AVAILABLE))) \<and>
   dispatched (trace (middleware logging_env
       (InviteRooms (Conference 1) [alice, dora, bob])
       (logged_world STATUS_AVAILABLE))) =
     [ShowNotification
        \<lparr>severity = Error,
         props = \<lparr>titleKey = Some ''videoSIPGW.errorInviteTitle'',
                  titleArguments = None,
                  descriptionKey = Some ''videoSIPGW.errorInvite'',
                  descriptionArguments = None\<rparr>,
         timeout = None\<rparr>] \<and>
   dispatched_to_store (world (middleware logging_env
       (InviteRooms (Conference 1) [alice, dora, bob])
       (logged_world STATUS_AVAILABLE))) =
     [ShowNotification
        \<lparr>severity = Error,
         props = \<lparr>titleKey = Some ''videoSIPGW.errorInviteTitle'',
                  titleArguments = None,
                  descriptionKey = Some ''videoSIPGW.errorInvite'',
                  descriptionArguments = None\<rparr>,
         timeout = None\<rparr>]"
proof -
  let ?w = "logged_world STATUS_AVAILABLE"
  let ?a = "InviteRooms (Conference 1) [alice, nameless, alicia, bob]"
  let ?b = "InviteRooms (Conference 1) [alice, dora, bob]"
  let ?warn = "ShowNotification
        \<lparr>severity = Warning,
         props = \<lparr>titleKey = Some ''videoSIPGW.errorAlreadyInvited'',
                  titleArguments = Some [(''displayName'', JStr ''Alicia'')],
                  descriptionKey = None,
                  descriptionArguments = None\<rparr>,
         timeout = None\<rparr>"
  let ?err = "ShowNotification
        \<lparr>severity = Error,
         props = \<lparr>titleKey = Some ''videoSIPGW.errorInviteTitle'',
                  titleArguments = None,
                  descriptionKey = Some ''videoSIPGW.errorInvite'',
                  descriptionArguments = None\<rparr>,
         timeout = None\<rparr>"
  have st: "status (getState logging_env (snd (next_fn logging_env ?a ?w))) = STATUS_AVAILABLE"
    "status (getState logging_env (snd (next_fn logging_env ?b ?w))) = STATUS_AVAILABLE"
    by (simp_all add: logging_defs)
  have ex: "CreateVideoSIPGWSession (Conference 1) (JStr ''sip:a'') (JStr ''Alicia'')
       (GwError ERROR_SESSION_EXISTS) \<in> set (trace (middleware logging_env ?a ?w))"
    by (simp add: logged_run_defs)
  have nc: "CreateVideoSIPGWSession (Conference 1) (JStr ''sip:down'') (JStr ''Dora'')
       (GwError ERROR_NO_CONNECTION) \<in> set (trace (middleware logging_env ?b ?w))"
    by (simp add: logged_run_defs)
  have wa: "addresses (world (middleware logging_env ?a ?w)) = [JStr ''sip:a'']"
    "started_sessions (world (middleware logging_env ?a ?w)) = [Session 0]"
    "dispatched_to_store (world (middleware logging_env ?a ?w)) = [?warn]"
    by (simp_all add: logged_run_defs)
  have wb: "dispatched_to_store (world (middleware logging_env ?b ?w)) = [?err]"
    by (simp add: logged_run_defs)
  from invite_recognized_error_notifies_and_stops [OF refl st(1) refl ex]
  have d1: "dispatched (trace (middleware logging_env ?a ?w)) = [?warn]"
    by (auto simp: gw_constants)
  from invite_recognized_error_notifies_and_stops [OF refl st(2) refl nc]
  have d2: "dispatched (trace (middleware logging_env ?b ?w)) = [?err]"
    by (auto simp: gw_constants)
  from st ex nc wa wb d1 d2 show ?thesis by blast
qed

text \<open>
  C2. An invite-rooms command when the status read from the state is UNDEFINED: the run
  is the forwarding of the action and the dispatch of one error notification, with no
  session-creation call, and the state it leaves is the store's \<^verbatim>\<open>dispatch\<close> of that
  notification applied to the state \<^verbatim>\<open>next\<close> left. When it is BUSY: the same with one
  warning notification. No room is processed in either case, and \<^verbatim>\<open>undefined\<close> is
  returned.
\<close>

theorem invite_unavailable_or_busy:
  assumes "w1 = snd (next_fn E (InviteRooms c rooms) w)"
    and "st = status (getState E w1)"
    and "out = middleware E (InviteRooms c rooms) w"
    and "unavailable = ShowNotification
           \<lparr>severity = Error,
            props = \<lparr>titleKey = Some ''videoSIPGW.unavailableTitle'',
                     titleArguments = None,
                     descriptionKey = Some ''recording.unavailable'',
                     descriptionArguments =
                       Some [(''serviceName'', JStr ''$t(videoSIPGW.serviceName)'')]\<rparr>,
            timeout = None\<rparr>"
    and "busy = ShowNotification
           \<lparr>severity = Warning,
            props = \<lparr>titleKey = Some ''videoSIPGW.busyTitle'',
                     titleArguments = None,
                     descriptionKey = Some ''videoSIPGW.busy'',
                     descriptionArguments = None\<rparr>,
            timeout = None\<rparr>"
  shows "(st = STATUS_UNDEFINED \<longrightarrow>
            trace out = [Next (InviteRooms c rooms), Dispatch unavailable] \<and>
            dispatched (trace out) = [unavailable] \<and> created (trace out) = [] \<and>
            world out = dispatch E unavailable w1 \<and> returned out = JUndefined) \<and>
         (st = STATUS_BUSY \<longrightarrow>
            trace out = [Next (InviteRooms c rooms), Dispatch busy] \<and>
            dispatched (trace out) = [busy] \<and> created (trace out) = [] \<and>
            world out = dispatch E busy w1 \<and> returned out = JUndefined)"
  using assms
  by (simp add: middleware_def Let_def showErrorNotification_def showWarningNotification_def
      gw_constants split: prod.splits)

theorem invite_unavailable_or_busy_witness:
  "status (getState logging_env (snd (next_fn logging_env
      (InviteRooms (Conference 1) [alice, bob]) (logged_world STATUS_UNDEFINED))))
     = STATUS_UNDEFINED \<and>
   middleware logging_env (InviteRooms (Conference 1) [alice, bob])
       (logged_world STATUS_UNDEFINED) =
     \<lparr>returned = JUndefined,
      trace = [Next (InviteRooms (Conference 1) [alice, bob]),
               Dispatch (ShowNotification
                 \<lparr>severity = Error,
                  props = \<lparr>titleKey = Some ''videoSIPGW.unavailableTitle'',
                           titleArguments = None,
                           descriptionKey = Some ''recording.unavailable'',
                           descriptionArguments =
                             Some [(''serviceName'', JStr ''$t(videoSIPGW.serviceName)'')]\<rparr>,
                  timeout = None\<rparr>)],
      world = (logged_world STATUS_UNDEFINED)
        \<lparr>forwarded_to_next := [InviteRooms (Conference 1) [alice, bob]],
         dispatched_to_store := [ShowNotification
                 \<lparr>severity = Error,
                  props = \<lparr>titleKey = Some ''videoSIPGW.unavailableTitle'',
                           titleArguments = None,
                           descriptionKey = Some ''recording.unavailable'',
                           descriptionArguments =
                             Some [(''serviceName'', JStr ''$t(videoSIPGW.serviceName)'')]\<rparr>,
                  timeout = None\<rparr>]\<rparr>\<rparr> \<and>
   status (getState logging_env (snd (next_fn logging_env
      (InviteRooms (Conference 1) [alice, bob]) (logged_world STATUS_BUSY))))
     = STATUS_BUSY \<and>
   middleware logging_env (InviteRooms (Conference 1) [alice, bob])
       (logged_world STATUS_BUSY) =
     \<lparr>returned = JUndefined,
      trace = [Next (InviteRooms (Conference 1) [alice, bob]),
               Dispatch (ShowNotification
                 \<lparr>severity = Warning,
                  props = \<lparr>titleKey = Some ''videoSIPGW.busyTitle'',
                           titleArguments = None,
                           descriptionKey = Some ''videoSIPGW.busy'',
                           descriptionArguments = None\<rparr>,
                  timeout = None\<rparr>)],
      world = (logged_world STATUS_BUSY)
        \<lparr>forwarded_to_next := [InviteRooms (Conference 1) [alice, bob]],
         dispatched_to_store := [ShowNotification
                 \<lparr>severity = Warning,
                  props = \<lparr>titleKey = Some ''videoSIPGW.busyTitle'',
                           titleArguments = None,
                           descriptionKey = Some ''videoSIPGW.busy'',
                           descriptionArguments = None\<rparr>,
                  timeout = None\<rparr>]\<rparr>\<rparr>"
proof -
  let ?a = "InviteRooms (Conference 1) [alice, bob]"
  have u: "status (getState logging_env (snd (next_fn logging_env ?a
      (logged_world STATUS_UNDEFINED)))) = STATUS_UNDEFINED"
    by (simp add: logging_defs)
  have b: "status (getState logging_env (snd (next_fn logging_env ?a
      (logged_world STATUS_BUSY)))) = STATUS_BUSY"
    by (simp add: logging_defs)
  have w1: "snd (next_fn logging_env ?a (logged_world st)) =
      (logged_world st)\<lparr>forwarded_to_next := [?a]\<rparr>" for st
    by (simp add: logging_defs)
  have disp: "dispatch logging_env d ((logged_world st)\<lparr>forwarded_to_next := [?a]\<rparr>) =
      (logged_world st)\<lparr>forwarded_to_next := [?a], dispatched_to_store := [d]\<rparr>" for d st
    by (simp add: logging_defs)
  from invite_unavailable_or_busy [OF refl u [symmetric] refl refl refl]
  have 1: "middleware logging_env ?a (logged_world STATUS_UNDEFINED) =
     \<lparr>returned = JUndefined,
      trace = [Next ?a,
               Dispatch (ShowNotification
                 \<lparr>severity = Error,
                  props = \<lparr>titleKey = Some ''videoSIPGW.unavailableTitle'',
                           titleArguments = None,
                           descriptionKey = Some ''recording.unavailable'',
                           descriptionArguments =
                             Some [(''serviceName'', JStr ''$t(videoSIPGW.serviceName)'')]\<rparr>,
                  timeout = None\<rparr>)],
      world = (logged_world STATUS_UNDEFINED)
        \<lparr>forwarded_to_next := [?a],
         dispatched_to_store := [ShowNotification
                 \<lparr>severity = Error,
                  props = \<lparr>titleKey = Some ''videoSIPGW.unavailableTitle'',
                           titleArguments = None,
                           descriptionKey = Some ''recording.unavailable'',
                           descriptionArguments =
                             Some [(''serviceName'', JStr ''$t(videoSIPGW.serviceName)'')]\<rparr>,
                  timeout = None\<rparr>]\<rparr>\<rparr>"
    unfolding w1 disp by (cases "middleware logging_env ?a (logged_world STATUS_UNDEFINED)") simp
  from invite_unavailable_or_busy [OF refl b [symmetric] refl refl refl]
  have 2: "middleware logging_env ?a (logged_world STATUS_BUSY) =
     \<lparr>returned = JUndefined,
      trace = [Next ?a,
               Dispatch (ShowNotification
                 \<lparr>severity = Warning,
                  props = \<lparr>titleKey = Some ''videoSIPGW.busyTitle'',
                           titleArguments = None,
                           descriptionKey = Some ''videoSIPGW.busy'',
                           descriptionArguments = None\<rparr>,
                  timeout = None\<rparr>)],
      world = (logged_world STATUS_BUSY)
        \<lparr>forwarded_to_next := [?a],
         dispatched_to_store := [ShowNotification
                 \<lparr>severity = Warning,
                  props = \<lparr>titleKey = Some ''videoSIPGW.busyTitle'',
                           titleArguments = None,
                           descriptionKey = Some ''videoSIPGW.busy'',
                           descriptionArguments = None\<rparr>,
                  timeout = None\<rparr>]\<rparr>\<rparr>"
    unfolding w1 disp
    by (cases "middleware logging_env ?a (logged_world STATUS_BUSY)")
      (simp add: gw_constants)
  from u b 1 2 show ?thesis by blast
qed

text \<open>
  C3. An invite-rooms command with status AVAILABLE whose rooms all have an address and a
  name (the guard of the loop holds for each), in a run where no creation call returns an
  error: \<^verbatim>\<open>createVideoSIPGWSession\<close> is called once per room, in the order of the rooms,
  \<^verbatim>\<open>start()\<close> is called on each session created, in that order, and nothing is
  dispatched. The sessions are those the conference returns, and the state the run leaves
  is the one its creation and start calls leave, applied room after room from the state
  \<^verbatim>\<open>next\<close> left.
\<close>

theorem invite_all_rooms_when_creation_succeeds:
  assumes "w1 = snd (next_fn E (InviteRooms c rooms) w)"
    and "status (getState E w1) = STATUS_AVAILABLE"
    and "out = middleware E (InviteRooms c rooms) w"
    and "\<forall>room \<in> set rooms. has_address_and_name room"
    and "failures (trace out) = []"
  shows "created (trace out) = map call_args rooms \<and>
         started (trace out) = opened (trace out) \<and>
         length (started (trace out)) = length rooms \<and>
         dispatched (trace out) = [] \<and>
         returned out = fst (next_fn E (InviteRooms c rooms) w) \<and>
         fold (create_and_start E c) rooms ([], w1) = (opened (trace out), world out)"
proof -
  obtain r ltr w' where run: "invite_rooms E c rooms w1 = (r, ltr, w')"
    by (metis prod_cases3)
  note out = middleware_available [OF assms(2) [unfolded assms(1)] run [unfolded assms(1)]]
  with assms(3) have tr: "trace out = Next (InviteRooms c rooms) # ltr" by simp
  with assms(5) have nofail: "failures ltr = []" by simp
  have "r = None"
  proof (cases r)
    case (Some v)
    with run have "invite_rooms E c rooms w1 = (Some v, ltr, w')" by simp
    from invite_rooms_returned [OF this] nofail show ?thesis by simp
  qed simp
  with run have ok: "invite_rooms E c rooms w1 = (None, ltr, w')" by simp
  note fin = invite_rooms_completed [OF ok] invite_rooms_completed_calls [OF ok, of "[]"]
  from assms(4) have "filter has_address_and_name rooms = rooms" by simp
  with fin tr out assms(3) \<open>r = None\<close> show ?thesis by simp
qed

theorem invite_all_rooms_when_creation_succeeds_witness:
  "status (getState logging_env (snd (next_fn logging_env
      (InviteRooms (Conference 1) [alice, bob]) (logged_world STATUS_AVAILABLE))))
     = STATUS_AVAILABLE \<and>
   has_address_and_name alice \<and> has_address_and_name bob \<and>
   failures (trace (middleware logging_env
      (InviteRooms (Conference 1) [alice, bob]) (logged_world STATUS_AVAILABLE))) = [] \<and>
   created (trace (middleware logging_env
      (InviteRooms (Conference 1) [alice, bob]) (logged_world STATUS_AVAILABLE))) =
     [(JStr ''sip:a'', JStr ''Alice''), (JStr ''sip:b'', JStr ''Bob'')] \<and>
   started (trace (middleware logging_env
      (InviteRooms (Conference 1) [alice, bob]) (logged_world STATUS_AVAILABLE))) =
     [Session 0, Session 1] \<and>
   dispatched (trace (middleware logging_env
      (InviteRooms (Conference 1) [alice, bob]) (logged_world STATUS_AVAILABLE))) = [] \<and>
   world (middleware logging_env
      (InviteRooms (Conference 1) [alice, bob]) (logged_world STATUS_AVAILABLE)) =
     (logged_world STATUS_AVAILABLE)
       \<lparr>forwarded_to_next := [InviteRooms (Conference 1) [alice, bob]],
        addresses := [JStr ''sip:a'', JStr ''sip:b''],
        started_sessions := [Session 0, Session 1]\<rparr>"
proof -
  let ?a = "InviteRooms (Conference 1) [alice, bob]"
  let ?w = "logged_world STATUS_AVAILABLE"
  let ?w1 = "snd (next_fn logging_env ?a ?w)"
  have st: "status (getState logging_env ?w1) = STATUS_AVAILABLE"
    by (simp add: logging_defs)
  have val: "has_address_and_name alice" "has_address_and_name bob"
    by (simp_all add: has_address_and_name_def alice_def bob_def)
  then have all: "\<forall>room \<in> set [alice, bob]. has_address_and_name room"
    by simp
  have nf: "failures (trace (middleware logging_env ?a ?w)) = []"
    by (simp add: logged_run_defs)
  have args: "map call_args [alice, bob] =
      [(JStr ''sip:a'', JStr ''Alice''), (JStr ''sip:b'', JStr ''Bob'')]"
    by (simp add: call_args_def alice_def bob_def)
  have calls: "fold (create_and_start logging_env (Conference 1)) [alice, bob] ([], ?w1) =
      ([Session 0, Session 1],
       ?w\<lparr>forwarded_to_next := [?a],
          addresses := [JStr ''sip:a'', JStr ''sip:b''],
          started_sessions := [Session 0, Session 1]\<rparr>)"
    by (simp add: create_and_start_def logging_defs gw_constants)
  note T = invite_all_rooms_when_creation_succeeds [OF refl st refl all nf, unfolded args calls]
  from T have pair:
    "([Session 0, Session 1],
      ?w\<lparr>forwarded_to_next := [?a],
         addresses := [JStr ''sip:a'', JStr ''sip:b''],
         started_sessions := [Session 0, Session 1]\<rparr>) =
     (opened (trace (middleware logging_env ?a ?w)), world (middleware logging_env ?a ?w))"
    by blast
  note inj = prod.inject [THEN iffD1, OF pair]
  from T have so: "started (trace (middleware logging_env ?a ?w)) =
      opened (trace (middleware logging_env ?a ?w))"
    by blast
  from T have "created (trace (middleware logging_env ?a ?w)) =
          [(JStr ''sip:a'', JStr ''Alice''), (JStr ''sip:b'', JStr ''Bob'')]"
    "dispatched (trace (middleware logging_env ?a ?w)) = []"
    by blast+
  moreover have "started (trace (middleware logging_env ?a ?w)) = [Session 0, Session 1]"
    using so inj [THEN conjunct1, symmetric] by (rule trans)
  moreover note inj [THEN conjunct2, symmetric]
  ultimately
  have "created (trace (middleware logging_env ?a ?w)) =
          [(JStr ''sip:a'', JStr ''Alice''), (JStr ''sip:b'', JStr ''Bob'')]"
    "dispatched (trace (middleware logging_env ?a ?w)) = []"
    "started (trace (middleware logging_env ?a ?w)) = [Session 0, Session 1]"
    "world (middleware logging_env ?a ?w) =
       ?w\<lparr>forwarded_to_next := [?a],
          addresses := [JStr ''sip:a'', JStr ''sip:b''],
          started_sessions := [Session 0, Session 1]\<rparr>"
    by blast+
  with st val nf show ?thesis by blast
qed

text \<open>
  C4. The session-state listener: for \<open>newState = PENDING\<close> it dispatches exactly one
  info notification, whose title arguments carry the display name of the event and whose
  timeout is 2000; for FAILED exactly one error notification whose title arguments carry
  the display name; in both cases the state it leaves is the store's \<^verbatim>\<open>dispatch\<close> of
  that notification. For any other \<open>newState\<close> there is nothing to dispatch and it does
  nothing.
\<close>

theorem session_state_changed_notifications:
  assumes "pending = ShowNotification
           \<lparr>severity = Info,
            props = \<lparr>titleKey = Some ''videoSIPGW.pending'',
                     titleArguments = Some [(''displayName'', displayName event)],
                     descriptionKey = None,
                     descriptionArguments = None\<rparr>,
            timeout = Some 2000\<rparr>"
    and "failed = ShowNotification
           \<lparr>severity = Error,
            props = \<lparr>titleKey = Some ''videoSIPGW.errorInviteFailedTitle'',
                     titleArguments = Some [(''displayName'', displayName event)],
                     descriptionKey = Some ''videoSIPGW.errorInviteFailed'',
                     descriptionArguments = None\<rparr>,
            timeout = None\<rparr>"
  shows "(newState event = STATE_PENDING \<longrightarrow>
            sessionStateChanged event = Some pending \<and>
            session_state_listener E event w = ([Dispatch pending], dispatch E pending w)) \<and>
         (newState event = STATE_FAILED \<longrightarrow>
            sessionStateChanged event = Some failed \<and>
            session_state_listener E event w = ([Dispatch failed], dispatch E failed w)) \<and>
         (newState event \<noteq> STATE_PENDING \<and> newState event \<noteq> STATE_FAILED \<longrightarrow>
            sessionStateChanged event = None \<and> session_state_listener E event w = ([], w))"
  using assms
  by (simp add: session_state_listener_def sessionStateChanged_def showNotification_def
      showErrorNotification_def gw_constants)

theorem session_state_changed_notifications_witness:
  "session_state_listener logging_env
     \<lparr>newState = STATE_PENDING, displayName = JStr ''Alice''\<rparr> (logged_world STATUS_AVAILABLE) =
     ([Dispatch (ShowNotification
         \<lparr>severity = Info,
          props = \<lparr>titleKey = Some ''videoSIPGW.pending'',
                   titleArguments = Some [(''displayName'', JStr ''Alice'')],
                   descriptionKey = None,
                   descriptionArguments = None\<rparr>,
          timeout = Some 2000\<rparr>)],
      (logged_world STATUS_AVAILABLE)
        \<lparr>dispatched_to_store := [ShowNotification
         \<lparr>severity = Info,
          props = \<lparr>titleKey = Some ''videoSIPGW.pending'',
                   titleArguments = Some [(''displayName'', JStr ''Alice'')],
                   descriptionKey = None,
                   descriptionArguments = None\<rparr>,
          timeout = Some 2000\<rparr>]\<rparr>) \<and>
   session_state_listener logging_env
     \<lparr>newState = STATE_FAILED, displayName = JStr ''Bob''\<rparr> (logged_world STATUS_AVAILABLE) =
     ([Dispatch (ShowNotification
         \<lparr>severity = Error,
          props = \<lparr>titleKey = Some ''videoSIPGW.errorInviteFailedTitle'',
                   titleArguments = Some [(''displayName'', JStr ''Bob'')],
                   descriptionKey = Some ''videoSIPGW.errorInviteFailed'',
                   descriptionArguments = None\<rparr>,
          timeout = None\<rparr>)],
      (logged_world STATUS_AVAILABLE)
        \<lparr>dispatched_to_store := [ShowNotification
         \<lparr>severity = Error,
          props = \<lparr>titleKey = Some ''videoSIPGW.errorInviteFailedTitle'',
                   titleArguments = Some [(''displayName'', JStr ''Bob'')],
                   descriptionKey = Some ''videoSIPGW.errorInviteFailed'',
                   descriptionArguments = None\<rparr>,
          timeout = None\<rparr>]\<rparr>) \<and>
   JStr ''on'' \<noteq> STATE_PENDING \<and> JStr ''on'' \<noteq> STATE_FAILED \<and>
   session_state_listener logging_env
     \<lparr>newState = JStr ''on'', displayName = JStr ''Bob''\<rparr> (logged_world STATUS_AVAILABLE) =
     ([], logged_world STATUS_AVAILABLE)"
proof -
  have other: "JStr ''on'' \<noteq> STATE_PENDING" "JStr ''on'' \<noteq> STATE_FAILED"
    by (simp_all add: gw_constants)
  have disp: "dispatch logging_env d (logged_world st) =
      (logged_world st)\<lparr>dispatched_to_store := [d]\<rparr>" for d st
    by (simp add: logging_defs)
  from session_state_changed_notifications
    [OF refl refl, of "\<lparr>newState = STATE_PENDING, displayName = JStr ''Alice''\<rparr>" logging_env
        "logged_world STATUS_AVAILABLE"]
    session_state_changed_notifications
    [OF refl refl, of "\<lparr>newState = STATE_FAILED, displayName = JStr ''Bob''\<rparr>" logging_env
        "logged_world STATUS_AVAILABLE"]
    session_state_changed_notifications
    [OF refl refl, of "\<lparr>newState = JStr ''on'', displayName = JStr ''Bob''\<rparr>" logging_env
        "logged_world STATUS_AVAILABLE"]
    other
  show ?thesis unfolding disp by simp
qed

text \<open>
  C5. The availability listener dispatches exactly one action, of type
  \<^verbatim>\<open>SIP_GW_AVAILABILITY_CHANGED\<close>, whose status is the value the event delivered,
  whatever that value is.
\<close>

theorem availability_changed_forwards_status:
  "availabilityChanged newStatus = AvailabilityChanged newStatus \<and>
   availability_listener E (newStatus # others) w =
     ([Dispatch (AvailabilityChanged newStatus)], dispatch E (AvailabilityChanged newStatus) w)"
  by (simp add: availability_listener_def availabilityChanged_def Let_def)

text \<open>
  C6. An invite-rooms command with status AVAILABLE whose loop reaches a room without an
  address or without a name: the room adds one log entry to the run and nothing else (no
  dispatch, no creation call), and the loop goes on with the rooms after it, from the
  same outside state, as it would without that room.
\<close>

theorem missing_field_room_is_skipped:
  assumes "w1 = snd (next_fn E (InviteRooms c (rs1 @ room # rs2)) w)"
    and "status (getState E w1) = STATUS_AVAILABLE"
    and "\<not> has_address_and_name room"
    and "invite_rooms E c rs1 w1 = (None, tr1, w2)"
    and "invite_rooms E c rs2 w2 = (r, tr2, w3)"
    and "out = middleware E (InviteRooms c (rs1 @ room # rs2)) w"
  shows "trace out = Next (InviteRooms c (rs1 @ room # rs2)) # tr1 @
                       LoggerError (NoDisplayNameOrSip room) # tr2 \<and>
         world out = w3 \<and>
         dispatched (trace out) = dispatched tr2 \<and>
         created (trace out) = created tr1 @ created tr2"
proof -
  from assms(3) have "(truthy (room_id room) \<and> truthy (room_name room)) = False"
    by (simp add: has_address_and_name_def)
  with assms(5) have "invite_rooms E c (room # rs2) w2 =
      (r, LoggerError (NoDisplayNameOrSip room) # tr2, w3)"
    by (simp add: Let_def del: de_Morgan_conj)
  with assms(4) have run: "invite_rooms E c (rs1 @ room # rs2) w1 =
      (r, tr1 @ LoggerError (NoDisplayNameOrSip room) # tr2, w3)"
    by (simp add: invite_rooms_append)
  from invite_rooms_completed [OF assms(4)] have "dispatched tr1 = []" by simp
  with middleware_available [OF assms(2) [unfolded assms(1)] run [unfolded assms(1)]] assms(6)
  show ?thesis
    by (simp add: dispatched_append created_append)
qed

theorem missing_field_room_is_skipped_witness:
  "status (getState example_env (snd (next_fn example_env
      (InviteRooms (Conference 1) ([alice] @ nameless # [bob]))
      (example_world STATUS_AVAILABLE)))) = STATUS_AVAILABLE \<and>
   \<not> has_address_and_name nameless \<and>
   trace (middleware example_env
      (InviteRooms (Conference 1) ([alice] @ nameless # [bob]))
      (example_world STATUS_AVAILABLE)) =
     [Next (InviteRooms (Conference 1) ([alice] @ nameless # [bob])),
      CreateVideoSIPGWSession (Conference 1) (JStr ''sip:a'') (JStr ''Alice'')
        (GwSession (Session 0)),
      SessionStart (Session 0),
      LoggerError (NoDisplayNameOrSip nameless),
      CreateVideoSIPGWSession (Conference 1) (JStr ''sip:b'') (JStr ''Bob'')
        (GwSession (Session 1)),
      SessionStart (Session 1)]"
proof -
  let ?w = "example_world STATUS_AVAILABLE"
  let ?a = "InviteRooms (Conference 1) ([alice] @ nameless # [bob])"
  let ?w2 = "?w\<lparr>invited := [JStr ''sip:a'']\<rparr>"
  let ?w3 = "?w\<lparr>invited := [JStr ''sip:a'', JStr ''sip:b'']\<rparr>"
  have w1: "?w = snd (next_fn example_env ?a ?w)"
    by (simp add: example_defs)
  have st: "status (getState example_env ?w) = STATUS_AVAILABLE"
    by (simp add: example_defs)
  have inv: "\<not> has_address_and_name nameless"
    by (simp add: has_address_and_name_def example_defs)
  have r1: "invite_rooms example_env (Conference 1) [alice] ?w =
      (None, [CreateVideoSIPGWSession (Conference 1) (JStr ''sip:a'') (JStr ''Alice'')
                (GwSession (Session 0)), SessionStart (Session 0)], ?w2)"
    by (simp add: run_defs)
  have r2: "invite_rooms example_env (Conference 1) [bob] ?w2 =
      (None, [CreateVideoSIPGWSession (Conference 1) (JStr ''sip:b'') (JStr ''Bob'')
                (GwSession (Session 1)), SessionStart (Session 1)], ?w3)"
    by (simp add: run_defs)
  from missing_field_room_is_skipped [OF w1 st inv r1 r2 refl] st inv w1
  show ?thesis by simp
qed



text \<open>
  C8. An invite-rooms command makes no session-creation call unless the status read from
  the state is AVAILABLE. For a status that is none of UNDEFINED, BUSY and AVAILABLE the
  run is the forwarding of the action and one log entry: nothing is dispatched, no
  session is created, and the outside state is as \<^verbatim>\<open>next\<close> left it.
\<close>

theorem invite_needs_available:
  assumes "st = status (getState E (snd (next_fn E (InviteRooms c rooms) w)))"
    and "out = middleware E (InviteRooms c rooms) w"
  shows "(st \<noteq> STATUS_AVAILABLE \<longrightarrow> created (trace out) = []) \<and>
         (st \<noteq> STATUS_UNDEFINED \<and> st \<noteq> STATUS_BUSY \<and> st \<noteq> STATUS_AVAILABLE \<longrightarrow>
            trace out = [Next (InviteRooms c rooms), LoggerError (UnknownStatus st)] \<and>
            dispatched (trace out) = [] \<and> created (trace out) = [] \<and>
            world out = snd (next_fn E (InviteRooms c rooms) w))"
  using assms
  by (simp add: middleware_def Let_def showErrorNotification_def showWarningNotification_def
      gw_constants split: prod.splits)

theorem invite_needs_available_witness:
  "status (getState example_env (snd (next_fn example_env
      (InviteRooms (Conference 1) [alice, bob]) (example_world JUndefined)))) = JUndefined \<and>
   JUndefined \<noteq> STATUS_UNDEFINED \<and> JUndefined \<noteq> STATUS_BUSY \<and>
   JUndefined \<noteq> STATUS_AVAILABLE \<and>
   trace (middleware example_env
      (InviteRooms (Conference 1) [alice, bob]) (example_world JUndefined)) =
     [Next (InviteRooms (Conference 1) [alice, bob]), LoggerError (UnknownStatus JUndefined)] \<and>
   created (trace (middleware example_env
      (InviteRooms (Conference 1) [alice, bob]) (example_world JUndefined))) = [] \<and>
   STATUS_BUSY \<noteq> STATUS_AVAILABLE \<and>
   created (trace (middleware example_env
      (InviteRooms (Conference 1) [alice, bob]) (example_world STATUS_BUSY))) = []"
proof -
  let ?a = "InviteRooms (Conference 1) [alice, bob]"
  have u: "JUndefined = status (getState example_env (snd (next_fn example_env ?a
      (example_world JUndefined))))"
    by (simp add: example_defs)
  have b: "STATUS_BUSY = status (getState example_env (snd (next_fn example_env ?a
      (example_world STATUS_BUSY))))"
    by (simp add: example_defs)
  have ne: "JUndefined \<noteq> STATUS_UNDEFINED" "JUndefined \<noteq> STATUS_BUSY"
    "JUndefined \<noteq> STATUS_AVAILABLE" "STATUS_BUSY \<noteq> STATUS_AVAILABLE"
    by (simp_all add: gw_constants)
  from invite_needs_available [OF u refl] invite_needs_available [OF b refl] ne u
  show ?thesis by simp
qed

text \<open>
  C9. For every action, the first call of the middleware is \<^verbatim>\<open>next(action)\<close>, and it is
  the only call of \<^verbatim>\<open>next\<close> in the run. Everything after it starts from the state
  \<^verbatim>\<open>next\<close> left: for an action of an unmatched type that state and the result of
  \<^verbatim>\<open>next\<close> are the outcome; for conference-will-join the two listeners are registered on
  it; for invite-rooms the status is read from it, and the dispatch or the loop runs
  on it.
\<close>

theorem next_called_first_and_once:
  assumes "result = fst (next_fn E action w)"
    and "w1 = snd (next_fn E action w)"
    and "out = middleware E action w"
  shows "\<exists>rest. trace out = Next action # rest \<and> forwarded rest = [] \<and>
           (case action of
              ConferenceWillJoin \<Rightarrow>
                returned out = result \<and>
                world out =
                  conference_on E (joining (getState E w1)) VIDEO_SIP_GW_SESSION_STATE_CHANGED
                    SessionStateListener
                    (conference_on E (joining (getState E w1))
                       VIDEO_SIP_GW_AVAILABILITY_CHANGED AvailabilityListener w1)
            | InviteRooms c rooms \<Rightarrow>
                if status (getState E w1) = STATUS_AVAILABLE then
                  rest = fst (snd (invite_rooms E c rooms w1)) \<and>
                  world out = snd (snd (invite_rooms E c rooms w1))
                else if status (getState E w1) = STATUS_UNDEFINED
                        \<or> status (getState E w1) = STATUS_BUSY then
                  (\<exists>d. rest = [Dispatch d] \<and> world out = dispatch E d w1)
                else
                  rest = [LoggerError (UnknownStatus (status (getState E w1)))] \<and>
                  world out = w1
            | _ \<Rightarrow> rest = [] \<and> returned out = result \<and> world out = w1)"
proof (cases action)
  case (InviteRooms c rooms)
  show ?thesis
  proof (cases "status (getState E w1) = STATUS_AVAILABLE")
    case True
    obtain r tr w' where run: "invite_rooms E c rooms w1 = (r, tr, w')"
      by (metis prod_cases3)
    from middleware_available [OF True [unfolded assms(2) InviteRooms]
        run [unfolded assms(2) InviteRooms]]
      invite_rooms_forwarded [OF run] run True assms(3) InviteRooms
    show ?thesis by simp
  next
    case False
    with assms InviteRooms show ?thesis
      by (cases "next_fn E (InviteRooms c rooms) w")
        (auto simp: middleware_def Let_def gw_constants)
  qed
qed (use assms in \<open>simp_all add: middleware_def Let_def split: prod.splits\<close>)

theorem next_called_first_and_once_witness:
  "middleware logging_env (OtherAction ''x'') (logged_world STATUS_BUSY) =
     \<lparr>returned = JObj 7, trace = [Next (OtherAction ''x'')],
      world = (logged_world STATUS_BUSY)\<lparr>forwarded_to_next := [OtherAction ''x'']\<rparr>\<rparr> \<and>
   middleware logging_env (AvailabilityChanged STATUS_AVAILABLE) (logged_world STATUS_BUSY) =
     \<lparr>returned = JObj 7, trace = [Next (AvailabilityChanged STATUS_AVAILABLE)],
      world = (logged_world STATUS_AVAILABLE)
        \<lparr>forwarded_to_next := [AvailabilityChanged STATUS_AVAILABLE]\<rparr>\<rparr> \<and>
   middleware logging_env ConferenceWillJoin (logged_world STATUS_BUSY) =
     \<lparr>returned = JObj 7,
      trace = [Next ConferenceWillJoin,
               ConferenceOn (Conference 1) VIDEO_SIP_GW_AVAILABILITY_CHANGED AvailabilityListener,
               ConferenceOn (Conference 1) VIDEO_SIP_GW_SESSION_STATE_CHANGED
                 SessionStateListener],
      world = (logged_world STATUS_BUSY)
        \<lparr>forwarded_to_next := [ConferenceWillJoin],
         registered :=
           [(Conference 1, VIDEO_SIP_GW_AVAILABILITY_CHANGED, AvailabilityListener),
            (Conference 1, VIDEO_SIP_GW_SESSION_STATE_CHANGED, SessionStateListener)]\<rparr>\<rparr> \<and>
   forwarded_to_next (world (middleware logging_env
       (InviteRooms (Conference 1) [alice, dora, bob]) (logged_world STATUS_AVAILABLE))) =
     [InviteRooms (Conference 1) [alice, dora, bob]] \<and>
   forwarded_to_next (world (middleware logging_env
       (InviteRooms (Conference 1) [alice, bob]) (logged_world STATUS_BUSY))) =
     [InviteRooms (Conference 1) [alice, bob]] \<and>
   forwarded_to_next (world (middleware logging_env
       (InviteRooms (Conference 1) [alice, bob]) (logged_world JNull))) =
     [InviteRooms (Conference 1) [alice, bob]]"
proof -
  let ?b = "logged_world STATUS_BUSY"
  have nx: "next_fn logging_env a (logged_world st) =
      (JObj 7, (logged_world (case a of AvailabilityChanged s \<Rightarrow> s | _ \<Rightarrow> st))
                 \<lparr>forwarded_to_next := [a]\<rparr>)" for a st
    by (cases a) (simp_all add: logging_defs)
  from next_called_first_and_once [OF refl refl refl, of logging_env "OtherAction ''x''" ?b]
  have 1: "middleware logging_env (OtherAction ''x'') ?b =
     \<lparr>returned = JObj 7, trace = [Next (OtherAction ''x'')],
      world = ?b\<lparr>forwarded_to_next := [OtherAction ''x'']\<rparr>\<rparr>"
    unfolding nx by (cases "middleware logging_env (OtherAction ''x'') ?b") auto
  from next_called_first_and_once
    [OF refl refl refl, of logging_env "AvailabilityChanged STATUS_AVAILABLE" ?b]
  have 2: "middleware logging_env (AvailabilityChanged STATUS_AVAILABLE) ?b =
     \<lparr>returned = JObj 7, trace = [Next (AvailabilityChanged STATUS_AVAILABLE)],
      world = (logged_world STATUS_AVAILABLE)
        \<lparr>forwarded_to_next := [AvailabilityChanged STATUS_AVAILABLE]\<rparr>\<rparr>"
    unfolding nx
    by (cases "middleware logging_env (AvailabilityChanged STATUS_AVAILABLE) ?b") auto
  have 3: "middleware logging_env ConferenceWillJoin ?b =
     \<lparr>returned = JObj 7,
      trace = [Next ConferenceWillJoin,
               ConferenceOn (Conference 1) VIDEO_SIP_GW_AVAILABILITY_CHANGED AvailabilityListener,
               ConferenceOn (Conference 1) VIDEO_SIP_GW_SESSION_STATE_CHANGED
                 SessionStateListener],
      world = ?b
        \<lparr>forwarded_to_next := [ConferenceWillJoin],
         registered :=
           [(Conference 1, VIDEO_SIP_GW_AVAILABILITY_CHANGED, AvailabilityListener),
            (Conference 1, VIDEO_SIP_GW_SESSION_STATE_CHANGED, SessionStateListener)]\<rparr>\<rparr>"
    by (simp add: logged_run_defs)
  have 4: "forwarded_to_next (world (middleware logging_env
       (InviteRooms (Conference 1) [alice, dora, bob]) (logged_world STATUS_AVAILABLE))) =
     [InviteRooms (Conference 1) [alice, dora, bob]]"
    by (simp add: logged_run_defs)
  have 5: "forwarded_to_next (world (middleware logging_env
       (InviteRooms (Conference 1) [alice, bob]) ?b)) = [InviteRooms (Conference 1) [alice, bob]]"
    by (simp add: logged_run_defs)
  from next_called_first_and_once
    [OF refl refl refl, of logging_env "InviteRooms (Conference 1) [alice, bob]"
       "logged_world JNull"]
  have 6: "forwarded_to_next (world (middleware logging_env
       (InviteRooms (Conference 1) [alice, bob]) (logged_world JNull))) =
     [InviteRooms (Conference 1) [alice, bob]]"
    unfolding nx by (auto simp: logging_defs gw_constants)
  from 1 2 3 4 5 6 show ?thesis by blast
qed

text \<open>
  C10. The middleware returns the result of \<^verbatim>\<open>next(action)\<close> for an action of an
  unmatched type, for conference-will-join, and for invite-rooms when the status is
  AVAILABLE and no creation call of the run returned an error; on every other path of
  invite-rooms it returns \<^verbatim>\<open>undefined\<close>.
\<close>

theorem middleware_return_value:
  "returned (middleware E action w) =
     (case action of
        InviteRooms c rooms \<Rightarrow>
          if status (getState E (snd (next_fn E action w))) = STATUS_AVAILABLE \<and>
             failures (trace (middleware E action w)) = []
          then fst (next_fn E action w) else JUndefined
      | _ \<Rightarrow> fst (next_fn E action w))"
proof (cases action)
  case (InviteRooms c rooms)
  let ?w1 = "snd (next_fn E (InviteRooms c rooms) w)"
  show ?thesis
  proof (cases "status (getState E ?w1) = STATUS_AVAILABLE")
    case False
    then show ?thesis
      using InviteRooms
      by (cases "next_fn E (InviteRooms c rooms) w")
        (auto simp: middleware_def Let_def gw_constants)
  next
    case True
    obtain r tr w' where run: "invite_rooms E c rooms ?w1 = (r, tr, w')"
      by (metis prod_cases3)
    note out = middleware_available [OF True run]
    show ?thesis
    proof (cases r)
      case None
      with run have "invite_rooms E c rooms ?w1 = (None, tr, w')" by simp
      from invite_rooms_completed [OF this] have "failures tr = []" by simp
      with None True InviteRooms out show ?thesis by simp
    next
      case (Some v)
      with run have "invite_rooms E c rooms ?w1 = (Some v, tr, w')" by simp
      from invite_rooms_returned [OF this] have "v = JUndefined" "failures tr \<noteq> []"
        by simp_all
      with Some True InviteRooms out show ?thesis by simp
    qed
  qed
qed (simp_all add: middleware_def Let_def split: prod.splits)

theorem middleware_return_value_witness:
  "returned (middleware example_env (OtherAction ''x'') (example_world STATUS_BUSY)) = JObj 7 \<and>
   returned (middleware example_env ConferenceWillJoin (example_world STATUS_BUSY)) = JObj 7 \<and>
   returned (middleware example_env (InviteRooms (Conference 1) [alice, nameless, bob])
      (example_world STATUS_AVAILABLE)) = JObj 7 \<and>
   returned (middleware example_env (InviteRooms (Conference 1) [alice, bob])
      (example_world STATUS_UNDEFINED)) = JUndefined \<and>
   returned (middleware example_env (InviteRooms (Conference 1) [alice, bob])
      (example_world STATUS_BUSY)) = JUndefined \<and>
   returned (middleware example_env (InviteRooms (Conference 1) [alice, bob])
      (example_world JNull)) = JUndefined \<and>
   returned (middleware example_env (InviteRooms (Conference 1) [alice, dora, bob])
      (example_world STATUS_AVAILABLE)) = JUndefined \<and>
   returned (middleware example_env (InviteRooms (Conference 1) [alice, otto, bob])
      (example_world STATUS_AVAILABLE)) = JUndefined"
proof -
  have f1: "failures (trace (middleware example_env
      (InviteRooms (Conference 1) [alice, nameless, bob]) (example_world STATUS_AVAILABLE))) = []"
    by (simp add: run_defs)
  have f2: "failures (trace (middleware example_env
      (InviteRooms (Conference 1) [alice, dora, bob]) (example_world STATUS_AVAILABLE)))
      = [ERROR_NO_CONNECTION]"
    by (simp add: run_defs)
  have f3: "failures (trace (middleware example_env
      (InviteRooms (Conference 1) [alice, otto, bob]) (example_world STATUS_AVAILABLE)))
      = [JStr ''odd'']"
    by (simp add: run_defs)
  show ?thesis
    apply (intro conjI)
           apply (subst middleware_return_value, simp add: example_defs)
          apply (subst middleware_return_value, simp add: example_defs)
         apply (subst middleware_return_value, simp only: f1 action.case,
        simp add: example_defs)
        apply (subst middleware_return_value, simp add: example_defs gw_constants)
       apply (subst middleware_return_value, simp add: example_defs gw_constants)
      apply (subst middleware_return_value, simp add: example_defs gw_constants)
     apply (subst middleware_return_value, simp only: f2 action.case, simp)
    apply (subst middleware_return_value, simp only: f3 action.case, simp)
    done
qed

end
